theory Spec2Isabelle
  imports Complex_Main
begin

section \<open>Data model\<close>

text \<open>
  A Python \<open>str\<close> is a sequence of Unicode code points, and the validator tests code
  points beyond one byte (U+FB01, U+FB02, U+FFFD), so a text is a list of code points.
  \<open>ord c\<close> is the code point itself.
\<close>

type_synonym pystr = "nat list"

text \<open>
  A LangChain \<open>Document\<close>: \<open>page_content\<close> is a string or \<open>None\<close> (the validator
  guards its reads with \<open>d.page_content or ""\<close>), \<open>metadata\<close> is a dictionary.
\<close>

record document =
  page_content :: "pystr option"
  metadata :: "(pystr \<times> pystr) list"

text \<open>The exceptions the modelled code can raise.\<close>

datatype error = AttributeError | ValueError | ZeroDivisionError | StatisticsError

text \<open>
  \<open>x or ""\<close> for \<open>x\<close> a string or \<open>None\<close>: both \<open>None\<close> and \<open>""\<close> are falsy
  and give \<open>""\<close>; any other string is returned as it is.
\<close>

definition or_empty :: "pystr option \<Rightarrow> pystr" where
  "or_empty x = (case x of None \<Rightarrow> [] | Some s \<Rightarrow> (if s = [] then [] else s))"

section \<open>collections.Counter\<close>

text \<open>
  \<open>Counter(iterable)\<close> counts the elements one after the other into a dictionary,
  which keeps its keys in the order of first insertion. An association list keeps that
  order: a known key has its count incremented in place, a new key is added at the end.
\<close>

fun Counter_add :: "('a \<times> nat) list \<Rightarrow> 'a \<Rightarrow> ('a \<times> nat) list" where
  "Counter_add [] k = [(k, 1)]"
| "Counter_add ((k', c) # m) k =
     (if k' = k then (k', c + 1) # m else (k', c) # Counter_add m k)"

definition Counter :: "'a list \<Rightarrow> ('a \<times> nat) list" where
  "Counter xs = foldl Counter_add [] xs"

section \<open>Metrics and helpers\<close>

text \<open>
  Python floats are read as real numbers: \<open>/\<close> is exact division and \<open>math.log2\<close>
  is \<open>log 2\<close>.
\<close>

definition shannon_entropy :: "pystr \<Rightarrow> real" where
  "shannon_entropy text =
     (if text = [] then 0
      else
        let freq = Counter text;
            total = length text;
            probs = map (\<lambda>count. real count / real total) (map snd freq)
        in - sum_list (map (\<lambda>p. p * log 2 p) (filter (\<lambda>p. p > 0) probs)))"

definition is_non_ascii_heavy :: "pystr \<Rightarrow> real \<Rightarrow> bool" where
  "is_non_ascii_heavy text threshold_ratio =
     (if text = [] then False
      else
        let non_ascii = length (filter (\<lambda>c. c > 127) text)
        in real non_ascii / real (length text) > threshold_ratio)"

text \<open>The default value of \<open>threshold_ratio\<close>.\<close>

definition default_threshold_ratio :: real where
  "default_threshold_ratio = 5 / 100"

text \<open>\<open>string.punctuation\<close>: the 32 ASCII punctuation characters.\<close>

definition string_punctuation :: "nat list" where
  "string_punctuation = [33 ..< 48] @ [58 ..< 65] @ [91 ..< 97] @ [123 ..< 127]"

definition punctuation_density :: "pystr \<Rightarrow> real" where
  "punctuation_density text =
     (if text = [] then 0
      else
        let punct = length (filter (\<lambda>c. c \<in> set string_punctuation) text)
        in real punct / real (length text))"

definition newline_count :: "pystr \<Rightarrow> nat" where
  "newline_count text = count_list text 10"

section \<open>Builtins used by the validator\<close>

text \<open>\<open>min(xs)\<close> and \<open>max(xs)\<close> raise \<open>ValueError\<close> on an empty list.\<close>

definition py_min :: "nat list \<Rightarrow> error + nat" where
  "py_min xs = (case xs of [] \<Rightarrow> Inl ValueError | x # rest \<Rightarrow> Inr (fold min rest x))"

definition py_max :: "nat list \<Rightarrow> error + nat" where
  "py_max xs = (case xs of [] \<Rightarrow> Inl ValueError | x # rest \<Rightarrow> Inr (fold max rest x))"

text \<open>\<open>a / b\<close> on integers is true division and raises \<open>ZeroDivisionError\<close> for \<open>b = 0\<close>.\<close>

definition true_div :: "nat \<Rightarrow> nat \<Rightarrow> error + real" where
  "true_div a b = (if b = 0 then Inl ZeroDivisionError else Inr (real a / real b))"

text \<open>
  \<open>statistics.median\<close>: the middle element of the sorted data, the mean of the two
  middle elements for an even count, \<open>StatisticsError\<close> for no data.
\<close>

definition median :: "nat list \<Rightarrow> error + real" where
  "median data =
     (let s = sort data; n = length s
      in if n = 0 then Inl StatisticsError
         else if n mod 2 = 1 then Inr (real (s ! (n div 2)))
         else Inr ((real (s ! (n div 2 - 1)) + real (s ! (n div 2))) / 2))"

text \<open>The comprehension \<open>[i for i, x in enumerate(xs) if P(x)]\<close>.\<close>

definition indices_where :: "('a \<Rightarrow> bool) \<Rightarrow> 'a list \<Rightarrow> nat list" where
  "indices_where P xs = map fst (filter (\<lambda>(i, x). P x) (enumerate 0 xs))"

text \<open>\<open>txt.replace("\n", " ")\<close>: every line feed (10) becomes a space (32).\<close>

definition replace_newlines :: "pystr \<Rightarrow> pystr" where
  "replace_newlines txt = map (\<lambda>c. if c = 10 then 32 else c) txt"

text \<open>
  \<open>pattern.search(text)\<close> for a character class such as \<open>[\<dots>]\<close>: some character of
  the text is one of the class. For the two-character pattern \<open>-\n\<close>: a hyphen (45)
  directly followed by a line feed (10).
\<close>

definition search_class :: "nat list \<Rightarrow> pystr \<Rightarrow> bool" where
  "search_class cls text = list_ex (\<lambda>c. c \<in> set cls) text"

fun search_hyphen_break :: "pystr \<Rightarrow> bool" where
  "search_hyphen_break (a # b # rest) = ((a = 45 \<and> b = 10) \<or> search_hyphen_break (b # rest))"
| "search_hyphen_break _ = False"

text \<open>The classes of the compiled patterns: U+FB01 and U+FB02, and U+FFFD.\<close>

definition ligature_pattern :: "nat list" where
  "ligature_pattern = [64257, 64258]"

definition replacement_char_pattern :: "nat list" where
  "replacement_char_pattern = [65533]"

section \<open>The report\<close>

text \<open>
  One constructor for each \<open>print\<close> call of \<open>validate_docs\<close>, in the order of the
  source, carrying the values the call interpolates into its format string.
\<close>

datatype line =
    Banner
  | WarnNoDocs
  | StatsHeader
  | StatsCount nat
  | StatsMin nat
  | StatsMax nat
  | StatsAvg real
  | StatsMedian real
  | WarnVeryShort nat "nat list"
  | WarnVeryLong nat "nat list"
  | DupHeader
  | DupNone
  | DupFound nat
  | DupHint
  | DupEntry nat nat pystr
  | EntropyHeader
  | LowEntropy nat "nat list"
  | EntropyOk
  | CharsHeader
  | WarnLigature nat
  | WarnReplacement nat
  | WarnHyphenBreak nat
  | WarnNonAscii nat
  | CharsOk
  | StructureHeader
  | WarnNewlines nat "nat list"
  | WarnLowPunct nat "nat list"
  | PunctOk
  | WarnEmpty nat "nat list"
  | Complete
  | InterpHeader
  | InterpFewWarnings
  | InterpRepeated
  | InterpOcr
  | InterpLengths

text \<open>The lines whose text carries the tag \<open>[WARN]\<close>.\<close>

fun is_warning :: "line \<Rightarrow> bool" where
  "is_warning WarnNoDocs = True"
| "is_warning (WarnVeryShort n ex) = True"
| "is_warning (WarnVeryLong n ex) = True"
| "is_warning (WarnLigature n) = True"
| "is_warning (WarnReplacement n) = True"
| "is_warning (WarnHyphenBreak n) = True"
| "is_warning (WarnNonAscii n) = True"
| "is_warning (WarnNewlines n ex) = True"
| "is_warning (WarnLowPunct n ex) = True"
| "is_warning (WarnEmpty n ex) = True"
| "is_warning _ = False"

text \<open>
  What a part of \<open>validate_docs\<close> does: the lines it prints, and the exception that
  ends it, if one does. Lines printed before an exception stay printed.
\<close>

type_synonym printed = "line list \<times> error option"

subsection \<open>Basic length stats\<close>

definition doc_lengths :: "document list \<Rightarrow> nat list" where
  "doc_lengths docs = map (\<lambda>d. length (or_empty (page_content d))) docs"

definition basic_length_stats :: "document list \<Rightarrow> nat list \<Rightarrow> printed" where
  "basic_length_stats docs lengths =
     (case py_min lengths of Inl e \<Rightarrow> ([], Some e) | Inr min_len \<Rightarrow>
      case py_max lengths of Inl e \<Rightarrow> ([], Some e) | Inr max_len \<Rightarrow>
      case true_div (sum_list lengths) (length lengths) of Inl e \<Rightarrow> ([], Some e) | Inr avg_len \<Rightarrow>
      case median lengths of Inl e \<Rightarrow> ([], Some e) | Inr median_len \<Rightarrow>
        let very_short = indices_where (\<lambda>L. L < 50) lengths;
            very_long = indices_where (\<lambda>L. L > 8000) lengths
        in ([StatsHeader, StatsCount (length docs), StatsMin min_len, StatsMax max_len,
             StatsAvg avg_len, StatsMedian median_len]
            @ (if very_short \<noteq> [] then [WarnVeryShort (length very_short) (take 10 very_short)]
               else [])
            @ (if very_long \<noteq> [] then [WarnVeryLong (length very_long) (take 10 very_long)]
               else []),
            None))"

subsection \<open>Duplicate content detection\<close>

text \<open>
  The loop over the entries to show. \<open>txt.replace\<close> on \<open>None\<close> raises
  \<open>AttributeError\<close>, which ends the loop and the validation.
\<close>

fun show_repeated :: "nat \<Rightarrow> (pystr option \<times> nat) list \<Rightarrow> printed" where
  "show_repeated i [] = ([], None)"
| "show_repeated i ((txt, c) # rest) =
     (case txt of
        None \<Rightarrow> ([], Some AttributeError)
      | Some s \<Rightarrow>
          let preview = take 120 (replace_newlines s);
              (ls, e) = show_repeated (i + 1) rest
          in (DupEntry (i + 1) c preview # ls, e))"

definition repeated_chunks :: "document list \<Rightarrow> (pystr option \<times> nat) list" where
  "repeated_chunks docs =
     (let content_counts = Counter (map page_content docs)
      in filter (\<lambda>(txt, c). c > 3) content_counts)"

definition duplicate_content_detection :: "document list \<Rightarrow> printed" where
  "duplicate_content_detection docs =
     (let repeated = repeated_chunks docs
      in if repeated = [] then ([DupHeader, DupNone], None)
         else
           let (ls, e) = show_repeated 0 (take 5 (sort_key (\<lambda>x. - int (snd x)) repeated))
           in ([DupHeader, DupFound (length repeated), DupHint] @ ls, e))"

subsection \<open>Entropy analysis\<close>

definition low_entropy_indices :: "document list \<Rightarrow> nat list" where
  "low_entropy_indices docs =
     (let entropies = map (\<lambda>d. shannon_entropy (or_empty (page_content d))) docs
      in indices_where (\<lambda>e. e > 0 \<and> e < 25 / 10) entropies)"

definition entropy_analysis :: "document list \<Rightarrow> line list" where
  "entropy_analysis docs =
     (let low = low_entropy_indices docs
      in [EntropyHeader,
          if low \<noteq> [] then LowEntropy (length low) (take 10 low) else EntropyOk])"

subsection \<open>Weird character checks\<close>

record char_hits =
  ligature_hits :: nat
  replacement_hits :: nat
  hyphen_break_hits :: nat
  non_ascii_heavy_hits :: nat

text \<open>The body of the loop over the documents, and the loop from four zero counters.\<close>

definition scan_doc :: "char_hits \<Rightarrow> document \<Rightarrow> char_hits" where
  "scan_doc h d =
     (let text = or_empty (page_content d);
          h1 = (if search_class ligature_pattern text
                then h\<lparr>ligature_hits := ligature_hits h + 1\<rparr> else h);
          h2 = (if search_class replacement_char_pattern text
                then h1\<lparr>replacement_hits := replacement_hits h1 + 1\<rparr> else h1);
          h3 = (if search_hyphen_break text
                then h2\<lparr>hyphen_break_hits := hyphen_break_hits h2 + 1\<rparr> else h2)
      in if is_non_ascii_heavy text default_threshold_ratio
         then h3\<lparr>non_ascii_heavy_hits := non_ascii_heavy_hits h3 + 1\<rparr> else h3)"

definition scan_docs :: "document list \<Rightarrow> char_hits" where
  "scan_docs docs =
     foldl scan_doc
       \<lparr>ligature_hits = 0, replacement_hits = 0, hyphen_break_hits = 0,
        non_ascii_heavy_hits = 0\<rparr> docs"

definition weird_character_checks :: "document list \<Rightarrow> line list" where
  "weird_character_checks docs =
     (let h = scan_docs docs
      in [CharsHeader]
         @ (if ligature_hits h \<noteq> 0 then [WarnLigature (ligature_hits h)] else [])
         @ (if replacement_hits h \<noteq> 0 then [WarnReplacement (replacement_hits h)] else [])
         @ (if hyphen_break_hits h \<noteq> 0 then [WarnHyphenBreak (hyphen_break_hits h)] else [])
         @ (if non_ascii_heavy_hits h \<noteq> 0 then [WarnNonAscii (non_ascii_heavy_hits h)] else [])
         @ (if \<not> (ligature_hits h \<noteq> 0 \<or> replacement_hits h \<noteq> 0 \<or> hyphen_break_hits h \<noteq> 0
                  \<or> non_ascii_heavy_hits h \<noteq> 0)
            then [CharsOk] else []))"

subsection \<open>Newline and punctuation diagnostics\<close>

definition newline_punctuation_diagnostics :: "document list \<Rightarrow> nat list \<Rightarrow> line list" where
  "newline_punctuation_diagnostics docs lengths =
     (let newline_counts = map (\<lambda>d. newline_count (or_empty (page_content d))) docs;
          high_newline_indices = indices_where (\<lambda>n. n > 30) newline_counts;
          punct_densities = map (\<lambda>d. punctuation_density (or_empty (page_content d))) docs;
          low_punct_indices =
            indices_where (\<lambda>(dens, L). L > 300 \<and> dens < 1 / 1000) (zip punct_densities lengths)
      in [StructureHeader]
         @ (if high_newline_indices \<noteq> []
            then [WarnNewlines (length high_newline_indices) (take 10 high_newline_indices)]
            else [])
         @ [if low_punct_indices \<noteq> []
            then WarnLowPunct (length low_punct_indices) (take 10 low_punct_indices)
            else PunctOk])"

subsection \<open>Empty and near-empty chunks, closing note\<close>

definition empty_chunks :: "nat list \<Rightarrow> line list" where
  "empty_chunks lengths =
     (let empty_indices = indices_where (\<lambda>L. L < 5) lengths
      in if empty_indices \<noteq> [] then [WarnEmpty (length empty_indices) (take 10 empty_indices)]
         else [])"

definition closing_note :: "line list" where
  "closing_note =
     [Complete, InterpHeader, InterpFewWarnings, InterpRepeated, InterpOcr, InterpLengths]"

subsection \<open>The main validator\<close>

text \<open>Statements run one after the other; an exception skips the rest.\<close>

fun in_order :: "printed list \<Rightarrow> printed" where
  "in_order [] = ([], None)"
| "in_order ((ls, Some e) # rest) = (ls, Some e)"
| "in_order ((ls, None) # rest) = (let (ls', e) = in_order rest in (ls @ ls', e))"

definition validation_report :: "document list \<Rightarrow> printed" where
  "validation_report docs =
     (if docs = [] then ([Banner, WarnNoDocs], None)
      else
        let lengths = doc_lengths docs
        in in_order
             [([Banner], None),
              basic_length_stats docs lengths,
              duplicate_content_detection docs,
              (entropy_analysis docs, None),
              (weird_character_checks docs, None),
              (newline_punctuation_diagnostics docs lengths, None),
              (empty_chunks lengths, None),
              (closing_note, None)])"

text \<open>
  The state \<open>validate_docs\<close> runs in: the documents its argument refers to, and the
  lines written to standard output so far. \<open>print\<close> is the only statement of
  \<open>validate_docs\<close> with an effect.
\<close>

record world =
  documents :: "document list"
  stdout :: "line list"

definition print :: "line \<Rightarrow> world \<Rightarrow> world" where
  "print l w = w\<lparr>stdout := stdout w @ [l]\<rparr>"

definition validate_docs :: "world \<Rightarrow> error option \<times> world" where
  "validate_docs w =
     (let (ls, e) = validation_report (documents w)
      in (e, fold print ls w))"




definition raised :: "document list \<Rightarrow> error option" where
  "raised docs = fst (validate_docs \<lparr>documents = docs, stdout = []\<rparr>)"

section \<open>Properties of Counter\<close>

lemma Counter_add_keys:
  "map fst (Counter_add m k) = (if k \<in> fst ` set m then map fst m else map fst m @ [k])"
  by (induction m k rule: Counter_add.induct) auto

lemma Counter_add_lookup:
  "distinct (map fst m) \<Longrightarrow>
   map_of (Counter_add m k) =
     (map_of m)(k \<mapsto> (case map_of m k of None \<Rightarrow> 1 | Some c \<Rightarrow> c + 1))"
proof (induction m k rule: Counter_add.induct)
  case (1 k)
  then show ?case by simp
next
  case (2 k' c m k)
  then show ?case
    by (auto simp: fun_eq_iff map_of_eq_None_iff image_iff split: option.splits)
qed

lemma Counter_add_distinct:
  "distinct (map fst m) \<Longrightarrow> distinct (map fst (Counter_add m k))"
  by (simp add: Counter_add_keys)

lemma foldl_Counter_add_inv:
  "distinct (map fst m) \<Longrightarrow>
   distinct (map fst (foldl Counter_add m xs)) \<and>
   (\<forall>k. map_of (foldl Counter_add m xs) k =
      (if k \<in> set xs then Some (count_list xs k + (case map_of m k of None \<Rightarrow> 0 | Some c \<Rightarrow> c))
       else map_of m k))"
proof (induction xs arbitrary: m)
  case Nil
  then show ?case by simp
next
  case (Cons x xs)
  have d: "distinct (map fst (Counter_add m x))"
    using Cons.prems by (rule Counter_add_distinct)
  show ?case
    using Cons.IH [OF d] Counter_add_lookup [OF Cons.prems, of x]
    by (auto split: option.splits)
qed

lemma Counter_distinct: "distinct (map fst (Counter xs))"
  using foldl_Counter_add_inv [of "[]" xs] by (simp add: Counter_def)

lemma Counter_lookup:
  "map_of (Counter xs) k = (if k \<in> set xs then Some (count_list xs k) else None)"
  using foldl_Counter_add_inv [of "[]" xs] by (simp add: Counter_def)

lemma Counter_entry:
  "(k, c) \<in> set (Counter xs) \<longleftrightarrow> k \<in> set xs \<and> c = count_list xs k"
proof -
  have "(k, c) \<in> set (Counter xs) \<longleftrightarrow> map_of (Counter xs) k = Some c"
    using Counter_distinct [of xs] by simp
  then show ?thesis by (auto simp: Counter_lookup)
qed

lemma Counter_replicate: "Counter (replicate (Suc n) c) = [(c, Suc n)]"
proof -
  have "foldl Counter_add [(c, m)] (replicate n c) = [(c, m + n)]" for m
    by (induction n arbitrary: m) auto
  from this [of 1] show ?thesis by (simp add: Counter_def)
qed

section \<open>Entropy\<close>

lemma entropy_term_nonpos:
  assumes "(k, c) \<in> set (Counter xs)"
  shows "0 < real c / real (length xs)" and "real c / real (length xs) \<le> 1"
proof -
  from assms have k: "k \<in> set xs" and c: "c = count_list xs k"
    by (simp_all add: Counter_entry)
  from k have "count_list xs k \<noteq> 0" by (simp add: count_list_0_iff)
  then have "0 < c" unfolding c by simp
  moreover from k have "0 < length xs" by (cases xs) auto
  ultimately show "0 < real c / real (length xs)" by simp
  have "c \<le> length xs" unfolding c by (rule count_le_length)
  with \<open>0 < length xs\<close> show "real c / real (length xs) \<le> 1" by simp
qed

lemma sum_list_nonpos:
  fixes xs :: "real list"
  shows "(\<And>x. x \<in> set xs \<Longrightarrow> x \<le> 0) \<Longrightarrow> sum_list xs \<le> 0"
  by (induction xs) (auto intro: add_nonpos_nonpos)

lemma shannon_entropy_nonneg: "0 \<le> shannon_entropy t"
proof (cases "t = []")
  case True
  then show ?thesis by (simp add: shannon_entropy_def)
next
  case False
  let ?probs = "map (\<lambda>count. real count / real (length t)) (map snd (Counter t))"
  have "x \<le> 0"
    if "x \<in> set (map (\<lambda>p. p * log 2 p) (filter (\<lambda>p. p > 0) ?probs))" for x
  proof -
    from that obtain k c where kc: "(k, c) \<in> set (Counter t)"
      and x: "x = (real c / real (length t)) * log 2 (real c / real (length t))"
      by auto
    from entropy_term_nonpos [OF kc]
    have "0 < real c / real (length t)" "log 2 (real c / real (length t)) \<le> 0"
      by simp_all
    then show ?thesis unfolding x by (intro mult_nonneg_nonpos) simp_all
  qed
  then have "sum_list (map (\<lambda>p. p * log 2 p) (filter (\<lambda>p. p > 0) ?probs)) \<le> 0"
    by (rule sum_list_nonpos)
  with False show ?thesis by (simp add: shannon_entropy_def Let_def)
qed

lemma shannon_entropy_replicate: "shannon_entropy (replicate (Suc n) c) = 0"
  by (simp add: shannon_entropy_def Counter_replicate del: replicate.simps)

lemma single_char_replicate:
  assumes "U \<noteq> []" and "\<forall>x\<in>set U. x = c"
  shows "\<exists>n. U = replicate (Suc n) c"
proof -
  from assms(2) have "U = replicate (length U) c"
    by (simp add: replicate_length_same)
  moreover from assms(1) obtain n where "length U = Suc n"
    by (cases U) auto
  ultimately show ?thesis by metis
qed

text \<open>
  Claim C4. The entropy of the empty text is 0, the entropy of every text is at
  least 0, and the entropy of a non-empty text made of one repeated character is
  exactly 0.
\<close>

theorem shannon_entropy_zero_and_nonneg:
  "shannon_entropy [] = 0 \<and> 0 \<le> shannon_entropy T \<and>
   (U \<noteq> [] \<and> (\<forall>x\<in>set U. x = c) \<longrightarrow> shannon_entropy U = 0)"
proof (intro conjI impI)
  show "shannon_entropy [] = 0" by (simp add: shannon_entropy_def)
  show "0 \<le> shannon_entropy T" by (rule shannon_entropy_nonneg)
next
  assume a: "U \<noteq> [] \<and> (\<forall>x\<in>set U. x = c)"
  from a have "U \<noteq> []" and "\<forall>x\<in>set U. x = c" by simp_all
  then have "\<exists>n. U = replicate (Suc n) c" by (rule single_char_replicate)
  then obtain n where U: "U = replicate (Suc n) c" ..
  show "shannon_entropy U = 0" unfolding U by (rule shannon_entropy_replicate)
qed

theorem shannon_entropy_zero_and_nonneg_witness:
  "shannon_entropy [] = 0 \<and> 0 \<le> shannon_entropy [97, 98] \<and>
   shannon_entropy [120, 120, 120] = 0"
  using shannon_entropy_zero_and_nonneg [of "[97, 98]" "[120, 120, 120]" 120] by simp

section \<open>Non-ASCII ratio\<close>

text \<open>
  Claim C7. \<open>is_non_ascii_heavy\<close> is false on the empty text for every threshold.
  On the text of the example, the ten code points c, a, f, U+00E9, space, n, a, U+00EF,
  v, e, it is true for the threshold 0.05 and false for the threshold 0.5: two of the
  ten are above 127.
\<close>

theorem is_non_ascii_heavy_examples:
  "\<not> is_non_ascii_heavy [] t \<and>
   is_non_ascii_heavy [99, 97, 102, 233, 32, 110, 97, 239, 118, 101] (5 / 100) \<and>
   \<not> is_non_ascii_heavy [99, 97, 102, 233, 32, 110, 97, 239, 118, 101] (5 / 10)"
  by (simp add: is_non_ascii_heavy_def)

theorem is_non_ascii_heavy_examples_witness:
  "\<not> is_non_ascii_heavy [] 0 \<and>
   is_non_ascii_heavy [99, 97, 102, 233, 32, 110, 97, 239, 118, 101] default_threshold_ratio"
  using is_non_ascii_heavy_examples [of 0] by (simp add: default_threshold_ratio_def)

section \<open>Printing and the documents\<close>

lemma fold_print: "fold print ls w = w\<lparr>stdout := stdout w @ ls\<rparr>"
  by (induction ls arbitrary: w) (simp_all add: print_def)

lemma validate_docs_unfold:
  "validate_docs w =
     (snd (validation_report (documents w)),
      w\<lparr>stdout := stdout w @ fst (validation_report (documents w))\<rparr>)"
  by (simp add: validate_docs_def fold_print split: prod.splits)

text \<open>
  Claim C3. On an empty collection \<open>validate_docs\<close> returns without an exception,
  having printed the banner and the single warning that nothing was loaded: one
  warning line and no statistics line.
\<close>

theorem validate_docs_empty_collection:
  "validate_docs \<lparr>documents = [], stdout = out\<rparr> =
     (None, \<lparr>documents = [], stdout = out @ [Banner, WarnNoDocs]\<rparr>) \<and>
   filter is_warning
     (drop (length out) (stdout (snd (validate_docs \<lparr>documents = [], stdout = out\<rparr>)))) =
     [WarnNoDocs]"
  by (simp add: validate_docs_unfold validation_report_def)

theorem validate_docs_empty_collection_witness:
  "validate_docs \<lparr>documents = [], stdout = []\<rparr> =
     (None, \<lparr>documents = [], stdout = [Banner, WarnNoDocs]\<rparr>)"
  using validate_docs_empty_collection [of "[]"] by simp

text \<open>
  Claim C9. \<open>validate_docs\<close> leaves every document as it was: the collection after
  the call, with each content and metadata, is the collection before it, whether the
  call returns or raises.
\<close>

theorem validate_docs_keeps_documents:
  "documents (snd (validate_docs w)) = documents w"
  by (simp add: validate_docs_unfold)

theorem validate_docs_keeps_documents_witness:
  "documents (snd (validate_docs
     \<lparr>documents = [\<lparr>page_content = Some [104, 105], metadata = [([115], [116])]\<rparr>,
                   \<lparr>page_content = None, metadata = []\<rparr>],
      stdout = []\<rparr>)) =
   [\<lparr>page_content = Some [104, 105], metadata = [([115], [116])]\<rparr>,
    \<lparr>page_content = None, metadata = []\<rparr>]"
  using validate_docs_keeps_documents
    [of "\<lparr>documents = [\<lparr>page_content = Some [104, 105], metadata = [([115], [116])]\<rparr>,
                         \<lparr>page_content = None, metadata = []\<rparr>],
          stdout = []\<rparr>"]
  by simp

section \<open>Evaluating the validator on concrete collections\<close>

lemmas report_eval =
  validation_report_def doc_lengths_def or_empty_def basic_length_stats_def py_min_def
  py_max_def true_div_def median_def indices_where_def enumerate_eq_zip
  duplicate_content_detection_def repeated_chunks_def Counter_def entropy_analysis_def
  low_entropy_indices_def shannon_entropy_def weird_character_checks_def scan_docs_def
  scan_doc_def search_class_def ligature_pattern_def replacement_char_pattern_def
  is_non_ascii_heavy_def default_threshold_ratio_def newline_punctuation_diagnostics_def
  newline_count_def punctuation_density_def string_punctuation_def empty_chunks_def
  closing_note_def

text \<open>
  Claim C1, at four documents without content. The length statistics read each
  content as the empty text, but the duplicate detection counts the key \<open>None\<close> four
  times and then asks \<open>None\<close> for a preview: \<open>validate_docs\<close> ends with
  \<open>AttributeError\<close> after the lines below. The duplicate detection also keeps \<open>None\<close>
  and the empty text apart: two documents of each are no repeated chunk, where four
  documents with the empty text are one.
\<close>

theorem validate_docs_absent_content_raises:
  "validate_docs
     \<lparr>documents = [\<lparr>page_content = None, metadata = []\<rparr>,
                   \<lparr>page_content = None, metadata = []\<rparr>,
                   \<lparr>page_content = None, metadata = []\<rparr>,
                   \<lparr>page_content = None, metadata = []\<rparr>],
      stdout = []\<rparr> =
   (Some AttributeError,
    \<lparr>documents = [\<lparr>page_content = None, metadata = []\<rparr>,
                  \<lparr>page_content = None, metadata = []\<rparr>,
                  \<lparr>page_content = None, metadata = []\<rparr>,
                  \<lparr>page_content = None, metadata = []\<rparr>],
     stdout = [Banner, StatsHeader, StatsCount 4, StatsMin 0, StatsMax 0, StatsAvg 0,
               StatsMedian 0, WarnVeryShort 4 [0, 1, 2, 3],
               DupHeader, DupFound 1, DupHint]\<rparr>) \<and>
   duplicate_content_detection
     [\<lparr>page_content = None, metadata = []\<rparr>, \<lparr>page_content = None, metadata = []\<rparr>,
      \<lparr>page_content = Some [], metadata = []\<rparr>, \<lparr>page_content = Some [], metadata = []\<rparr>] =
   ([DupHeader, DupNone], None) \<and>
   duplicate_content_detection
     [\<lparr>page_content = Some [], metadata = []\<rparr>, \<lparr>page_content = Some [], metadata = []\<rparr>,
      \<lparr>page_content = Some [], metadata = []\<rparr>, \<lparr>page_content = Some [], metadata = []\<rparr>] =
   ([DupHeader, DupFound 1, DupHint, DupEntry 1 4 []], None)"
  by (simp add: validate_docs_unfold report_eval replace_newlines_def)

section \<open>The order of the report\<close>

lemma in_order_Cons:
  "in_order ((ls, e) # rest) =
     (case e of Some x \<Rightarrow> (ls, Some x)
      | None \<Rightarrow> (ls @ fst (in_order rest), snd (in_order rest)))"
  by (cases e) (simp_all split: prod.splits)












lemma raised_report: "raised docs = snd (validation_report docs)"
  by (simp add: raised_def validate_docs_unfold)





section \<open>Index comprehensions\<close>

lemma indices_where_snoc:
  "indices_where P (xs @ [x]) = indices_where P xs @ (if P x then [length xs] else [])"
  by (simp add: indices_where_def enumerate_append_eq)

lemma indices_where_filter:
  "indices_where P xs = filter (\<lambda>i. P (xs ! i)) [0 ..< length xs]"
proof (induction xs rule: rev_induct)
  case Nil
  then show ?case by (simp add: indices_where_def)
next
  case (snoc x xs)
  have "filter (\<lambda>i. P ((xs @ [x]) ! i)) [0 ..< length xs] =
        filter (\<lambda>i. P (xs ! i)) [0 ..< length xs]"
    by (rule filter_cong) (simp_all add: nth_append)
  with snoc show ?case
    by (simp add: indices_where_snoc)
qed

section \<open>The entropy scan\<close>

lemma low_entropy_indices_filter:
  "low_entropy_indices docs =
     filter (\<lambda>i. 0 < shannon_entropy (or_empty (page_content (docs ! i))) \<and>
                 shannon_entropy (or_empty (page_content (docs ! i))) < 25 / 10)
       [0 ..< length docs]"
proof -
  have "filter (\<lambda>i. 0 < map (\<lambda>d. shannon_entropy (or_empty (page_content d))) docs ! i \<and>
                    map (\<lambda>d. shannon_entropy (or_empty (page_content d))) docs ! i < 25 / 10)
          [0 ..< length docs] =
        filter (\<lambda>i. 0 < shannon_entropy (or_empty (page_content (docs ! i))) \<and>
                    shannon_entropy (or_empty (page_content (docs ! i))) < 25 / 10)
          [0 ..< length docs]"
    by (rule filter_cong) simp_all
  then show ?thesis
    by (simp add: low_entropy_indices_def indices_where_filter)
qed

lemma shannon_entropy_two: "shannon_entropy [97, 98] = 1"
  by (simp add: shannon_entropy_def Counter_def log_recip)


text \<open>
  Claim C6. The entropy scan flags the indices, in collection order, of exactly the
  documents whose entropy is strictly between 0 and 2.5; a document read as the empty
  text is never flagged; and when an index is flagged the scan prints the count of
  flagged indices with the first 10 of them.
\<close>

theorem entropy_scan_flags_open_interval:
  "low_entropy_indices docs =
     filter (\<lambda>i. 0 < shannon_entropy (or_empty (page_content (docs ! i))) \<and>
                 shannon_entropy (or_empty (page_content (docs ! i))) < 25 / 10)
       [0 ..< length docs] \<and>
   (i < length docs \<and> or_empty (page_content (docs ! i)) = [] \<longrightarrow>
      i \<notin> set (low_entropy_indices docs)) \<and>
   entropy_analysis docs =
     [EntropyHeader,
      if low_entropy_indices docs \<noteq> []
      then LowEntropy (length (low_entropy_indices docs)) (take 10 (low_entropy_indices docs))
      else EntropyOk]"
proof (intro conjI impI)
  show "low_entropy_indices docs =
     filter (\<lambda>i. 0 < shannon_entropy (or_empty (page_content (docs ! i))) \<and>
                 shannon_entropy (or_empty (page_content (docs ! i))) < 25 / 10)
       [0 ..< length docs]"
    by (rule low_entropy_indices_filter)
next
  assume "i < length docs \<and> or_empty (page_content (docs ! i)) = []"
  then show "i \<notin> set (low_entropy_indices docs)"
    by (simp add: low_entropy_indices_filter shannon_entropy_def)
next
  show "entropy_analysis docs =
     [EntropyHeader,
      if low_entropy_indices docs \<noteq> []
      then LowEntropy (length (low_entropy_indices docs)) (take 10 (low_entropy_indices docs))
      else EntropyOk]"
    by (simp add: entropy_analysis_def Let_def)
qed

theorem entropy_scan_flags_open_interval_witness:
  "low_entropy_indices
     [\<lparr>page_content = Some [], metadata = []\<rparr>, \<lparr>page_content = Some [97, 98], metadata = []\<rparr>,
      \<lparr>page_content = None, metadata = []\<rparr>] = [1] \<and>
   0 \<notin> set (low_entropy_indices
     [\<lparr>page_content = Some [], metadata = []\<rparr>, \<lparr>page_content = Some [97, 98], metadata = []\<rparr>,
      \<lparr>page_content = None, metadata = []\<rparr>]) \<and>
   entropy_analysis
     [\<lparr>page_content = Some [], metadata = []\<rparr>, \<lparr>page_content = Some [97, 98], metadata = []\<rparr>,
      \<lparr>page_content = None, metadata = []\<rparr>] = [EntropyHeader, LowEntropy 1 [1]]"
  using entropy_scan_flags_open_interval
    [of "[\<lparr>page_content = Some [], metadata = []\<rparr>,
          \<lparr>page_content = Some [97, 98], metadata = []\<rparr>,
          \<lparr>page_content = None, metadata = []\<rparr>]" 0]
  by (simp add: or_empty_def shannon_entropy_two upt_rec [of 0] upt_rec [of 1] upt_rec [of 2]
      shannon_entropy_def [of "[]"])

text \<open>
  Claim C10. A document whose content is one character repeated, however long, is
  never flagged by the entropy scan: its entropy is exactly 0, and a flag needs an
  entropy above 0.
\<close>

theorem single_character_document_not_flagged:
  "i < length docs \<and> page_content (docs ! i) = Some U \<and> U \<noteq> [] \<and> (\<forall>x\<in>set U. x = c) \<longrightarrow>
     shannon_entropy U = 0 \<and> i \<notin> set (low_entropy_indices docs)"
proof
  assume a: "i < length docs \<and> page_content (docs ! i) = Some U \<and> U \<noteq> [] \<and> (\<forall>x\<in>set U. x = c)"
  then have "U \<noteq> []" and "\<forall>x\<in>set U. x = c" by simp_all
  then have "\<exists>n. U = replicate (Suc n) c" by (rule single_char_replicate)
  then obtain n where U: "U = replicate (Suc n) c" ..
  have z: "shannon_entropy U = 0" unfolding U by (rule shannon_entropy_replicate)
  from a have "or_empty (page_content (docs ! i)) = U" by (simp add: or_empty_def)
  with z show "shannon_entropy U = 0 \<and> i \<notin> set (low_entropy_indices docs)"
    by (simp add: low_entropy_indices_filter)
qed

theorem single_character_document_not_flagged_witness:
  "shannon_entropy (replicate 5000 45) = 0 \<and>
   0 \<notin> set (low_entropy_indices [\<lparr>page_content = Some (replicate 5000 45), metadata = []\<rparr>])"
  using single_character_document_not_flagged
    [of 0 "[\<lparr>page_content = Some (replicate 5000 45), metadata = []\<rparr>]" "replicate 5000 45" 45]
  by simp

section \<open>The character-artifact scan\<close>






section \<open>Duplicate detection\<close>

lemma repeated_chunks_entry:
  "(t, c) \<in> set (repeated_chunks docs) \<longleftrightarrow>
     t \<in> set (map page_content docs) \<and> c = count_list (map page_content docs) t \<and> 3 < c"
  by (auto simp: repeated_chunks_def Counter_entry)

lemma repeated_chunks_distinct: "distinct (map fst (repeated_chunks docs))"
  by (simp add: repeated_chunks_def Counter_distinct distinct_map_filter)

lemma show_repeated_present:
  "\<forall>e\<in>set xs. fst e \<noteq> None \<Longrightarrow>
   show_repeated i xs =
     (map (\<lambda>(j, (t, c)). DupEntry (j + 1) c (take 120 (replace_newlines (the t))))
        (enumerate i xs), None)"
proof (induction i xs rule: show_repeated.induct)
  case (1 i)
  then show ?case by simp
next
  case (2 i key c rest)
  from "2.prems" obtain s where s: "key = Some s" by auto
  from "2.prems" have "\<forall>e\<in>set rest. fst e \<noteq> None" by simp
  from "2.IH" [OF s refl this] show ?case
    by (simp add: s)
qed

lemma preview_single_line:
  "length (take 120 (replace_newlines s)) \<le> 120 \<and> 10 \<notin> set (take 120 (replace_newlines s))"
proof -
  have "10 \<notin> set (replace_newlines s)"
    by (auto simp: replace_newlines_def)
  then show ?thesis
    by (auto dest: in_set_takeD)
qed

text \<open>
  What the duplicate detection does when the content \<open>None\<close> occurs at most 3 times:
  it returns, and reports the contents that occur more than 3 times, the most frequent
  first and at most 5 of them, each with its count and its preview.
\<close>

lemma duplicates_reported_when_content_present:
  assumes "count_list (map page_content docs) None \<le> 3"
  shows "duplicate_content_detection docs =
    (if repeated_chunks docs = [] then ([DupHeader, DupNone], None)
     else ([DupHeader, DupFound (length (repeated_chunks docs)), DupHint]
           @ map (\<lambda>(j, (t, c)). DupEntry (j + 1) c (take 120 (replace_newlines (the t))))
               (enumerate 0 (take 5 (sort_key (\<lambda>x. - int (snd x)) (repeated_chunks docs)))),
           None))"
proof -
  have "fst e \<noteq> None"
    if "e \<in> set (take 5 (sort_key (\<lambda>x. - int (snd x)) (repeated_chunks docs)))" for e
  proof
    assume n: "fst e = None"
    from that have "e \<in> set (repeated_chunks docs)"
      by (auto dest: in_set_takeD)
    with n have "(None, snd e) \<in> set (repeated_chunks docs)"
      by (cases e) simp
    then have "3 < count_list (map page_content docs) None"
      by (simp add: repeated_chunks_entry)
    with assms show False by simp
  qed
  then have "\<forall>e\<in>set (take 5 (sort_key (\<lambda>x. - int (snd x)) (repeated_chunks docs))).
      fst e \<noteq> None"
    by blast
  from show_repeated_present [OF this, of 0] show ?thesis
    by (simp add: duplicate_content_detection_def Let_def)
qed

lemma shown_repeats_descending:
  "sorted (map (\<lambda>x. - int (snd x)) (take 5 (sort_key (\<lambda>x. - int (snd x)) (repeated_chunks docs))))"
proof -
  have "sorted (map (\<lambda>x. - int (snd x)) (sort_key (\<lambda>x. - int (snd x)) (repeated_chunks docs)))"
    by (rule sorted_sort_key)
  then show ?thesis
    by (simp add: take_map [symmetric])
qed

lemma duplicates_ten_documents:
  "duplicate_content_detection
     [\<lparr>page_content = Some [104, 10, 105], metadata = []\<rparr>, \<lparr>page_content = Some [49], metadata = []\<rparr>,
      \<lparr>page_content = Some [104, 10, 105], metadata = []\<rparr>, \<lparr>page_content = Some [50], metadata = []\<rparr>,
      \<lparr>page_content = Some [104, 10, 105], metadata = []\<rparr>, \<lparr>page_content = Some [49], metadata = []\<rparr>,
      \<lparr>page_content = Some [104, 10, 105], metadata = []\<rparr>, \<lparr>page_content = Some [49], metadata = []\<rparr>,
      \<lparr>page_content = Some [104, 10, 105], metadata = []\<rparr>, \<lparr>page_content = Some [], metadata = []\<rparr>] =
   ([DupHeader, DupFound 1, DupHint, DupEntry 1 5 [104, 32, 105]], None)"
  by (simp add: duplicate_content_detection_def repeated_chunks_def Counter_def
      replace_newlines_def)

text \<open>
  Claim C5, at four documents without content followed by four documents "a". Both
  contents occur 4 times. The entry of \<open>None\<close> comes first, its preview raises
  \<open>AttributeError\<close>, and the string "a" is never reported. With five documents "a"
  before five documents without content, the detection announces 2 repeated texts,
  reports "a" and then raises.
\<close>

theorem duplicate_detection_stops_at_absent_content:
  "duplicate_content_detection
     [\<lparr>page_content = None, metadata = []\<rparr>, \<lparr>page_content = None, metadata = []\<rparr>,
      \<lparr>page_content = None, metadata = []\<rparr>, \<lparr>page_content = None, metadata = []\<rparr>,
      \<lparr>page_content = Some [97], metadata = []\<rparr>, \<lparr>page_content = Some [97], metadata = []\<rparr>,
      \<lparr>page_content = Some [97], metadata = []\<rparr>, \<lparr>page_content = Some [97], metadata = []\<rparr>] =
   ([DupHeader, DupFound 2, DupHint], Some AttributeError) \<and>
   duplicate_content_detection
     [\<lparr>page_content = Some [97], metadata = []\<rparr>, \<lparr>page_content = Some [97], metadata = []\<rparr>,
      \<lparr>page_content = Some [97], metadata = []\<rparr>, \<lparr>page_content = Some [97], metadata = []\<rparr>,
      \<lparr>page_content = Some [97], metadata = []\<rparr>,
      \<lparr>page_content = None, metadata = []\<rparr>, \<lparr>page_content = None, metadata = []\<rparr>,
      \<lparr>page_content = None, metadata = []\<rparr>, \<lparr>page_content = None, metadata = []\<rparr>,
      \<lparr>page_content = None, metadata = []\<rparr>] =
   ([DupHeader, DupFound 2, DupHint, DupEntry 1 5 [97]], Some AttributeError)"
  by (simp add: duplicate_content_detection_def repeated_chunks_def Counter_def
      replace_newlines_def)

section \<open>When the validator returns\<close>

lemma basic_length_stats_returns:
  "lengths \<noteq> [] \<Longrightarrow> snd (basic_length_stats docs lengths) = None"
  by (cases lengths)
    (simp_all add: basic_length_stats_def py_min_def py_max_def true_div_def median_def Let_def)

text \<open>
  The statistics never raise on a non-empty collection, so the only exception of
  \<open>validate_docs\<close> is the \<open>AttributeError\<close> of the duplicate detection, and it needs
  more than 3 documents without content.
\<close>

lemma validate_docs_returns_when_content_present:
  assumes "count_list (map page_content docs) None \<le> 3"
  shows "raised docs = None"
proof (cases "docs = []")
  case True
  then show ?thesis by (simp add: raised_report validation_report_def)
next
  case False
  then have "doc_lengths docs \<noteq> []" by (simp add: doc_lengths_def)
  then have s1: "snd (basic_length_stats docs (doc_lengths docs)) = None"
    by (rule basic_length_stats_returns)
  have s2: "snd (duplicate_content_detection docs) = None"
    by (simp add: duplicates_reported_when_content_present [OF assms])
  obtain l1 e1 where p1: "basic_length_stats docs (doc_lengths docs) = (l1, e1)"
    by (cases "basic_length_stats docs (doc_lengths docs)")
  obtain l2 e2 where p2: "duplicate_content_detection docs = (l2, e2)"
    by (cases "duplicate_content_detection docs")
  from s1 s2 False show ?thesis
    by (simp add: raised_report validation_report_def Let_def in_order_Cons p1 p2)
qed

end
